theory Spec2Isabelle
  imports Complex_Main
begin

section \<open>Data model of the gesture controller\<close>

text \<open>
  Modelled from the spec: the enum \<open>TreeState\<close> is imported from \<open>../types\<close>, which is not
  among the sources. The controller uses the members \<open>TREE_SHAPE\<close>, \<open>SCATTERED\<close> and
  \<open>PHOTO_VIEW\<close>, and the spec enumerates exactly these three.
\<close>

datatype TreeState = TREE_SHAPE | SCATTERED | PHOTO_VIEW

subsection \<open>JavaScript numbers\<close>

text \<open>
  A JavaScript number is an IEEE 754 binary64 value: a finite value (given by the real number
  it denotes), an infinity, or NaN. The two zeros are identified: the subtractions,
  products and comparisons of the controller, and \<open>Math.hypot\<close>, give the same results for
  either. Every arithmetic operation computes the exact result and rounds it to the nearest
  binary64 value, ties to even.
\<close>

datatype double = Fin real | PInf | NInf | NaN

definition pow2 :: "int \<Rightarrow> real" where
  "pow2 k = (if 0 \<le> k then 2 ^ nat k else 1 / 2 ^ nat (- k))"

text \<open>The nearest integer, a tie going to the even one.\<close>

definition round_even :: "real \<Rightarrow> int" where
  "round_even z =
     (let f = \<lfloor>z\<rfloor> in
      if z - of_int f < 1 / 2 then f
      else if 1 / 2 < z - of_int f then f + 1
      else if even f then f else f + 1)"

text \<open>The binary exponent of a non-zero real: \<open>2 ^ expo x \<le> \<bar>x\<bar> < 2 ^ (expo x + 1)\<close>.\<close>

definition expo :: "real \<Rightarrow> int" where
  "expo x = \<lfloor>log 2 \<bar>x\<bar>\<rfloor>"

text \<open>
  Rounding at exponent \<open>e\<close>: to a multiple of \<open>2 ^ (e - 52)\<close> (53 significant bits), and to
  an infinity when the rounded magnitude reaches \<open>2 ^ 1024\<close>.
\<close>

definition round_at :: "int \<Rightarrow> real \<Rightarrow> double" where
  "round_at e x =
     (let u = pow2 (e - 52); y = of_int (round_even (x / u)) * u
      in if pow2 1024 \<le> \<bar>y\<bar> then (if 0 < x then PInf else NInf) else Fin y)"

text \<open>
  Rounding to binary64: at the exponent of the value, and at the least normal exponent
  \<open>-1022\<close> for subnormal values.
\<close>

definition rnd :: "real \<Rightarrow> double" where
  "rnd x = (if x = 0 then Fin 0 else round_at (max (expo x) (- 1022)) x)"

text \<open>A decimal literal of the source denotes the binary64 value nearest to it.\<close>

definition lit :: "real \<Rightarrow> double" where
  "lit q = rnd q"

text \<open>The operator \<open>-\<close> on numbers.\<close>

fun dsub :: "double \<Rightarrow> double \<Rightarrow> double" where
  "dsub NaN b = NaN"
| "dsub a NaN = NaN"
| "dsub (Fin x) (Fin y) = rnd (x - y)"
| "dsub (Fin x) PInf = NInf"
| "dsub (Fin x) NInf = PInf"
| "dsub PInf PInf = NaN"
| "dsub PInf b = PInf"
| "dsub NInf NInf = NaN"
| "dsub NInf b = NInf"

text \<open>The operator \<open>*\<close> on numbers.\<close>

fun dmul :: "double \<Rightarrow> double \<Rightarrow> double" where
  "dmul NaN b = NaN"
| "dmul a NaN = NaN"
| "dmul (Fin x) (Fin y) = rnd (x * y)"
| "dmul (Fin x) b = (if x = 0 then NaN else if (0 < x) = (b = PInf) then PInf else NInf)"
| "dmul a (Fin y) = (if y = 0 then NaN else if (0 < y) = (a = PInf) then PInf else NInf)"
| "dmul a b = (if a = b then PInf else NInf)"

text \<open>The comparison \<open>a < b\<close>; \<open>a > b\<close> of the source is \<open>dless b a\<close>. NaN compares false.\<close>

fun dless :: "double \<Rightarrow> double \<Rightarrow> bool" where
  "dless NaN b = False"
| "dless a NaN = False"
| "dless (Fin x) (Fin y) = (x < y)"
| "dless a NInf = False"
| "dless NInf b = True"
| "dless PInf b = False"
| "dless (Fin x) PInf = True"

subsection \<open>Frames, refs and callbacks\<close>

text \<open>
  A landmark is an object with the numeric properties \<open>x\<close> and \<open>y\<close> (a depth, if present, is
  never read). The fields are named \<open>joint_x\<close> and \<open>joint_y\<close> so that \<open>x\<close> and \<open>y\<close> stay
  usable as variables.
\<close>

record joint =
  joint_x :: double
  joint_y :: double

text \<open>
  \<open>landmarks: any[]\<close>: an array in which an index may hold \<open>undefined\<close> (\<open>None\<close>). Reading
  an index beyond the length gives \<open>undefined\<close> as well, as JavaScript does.
\<close>

type_synonym landmarks = "joint option list"

definition at_index :: "landmarks \<Rightarrow> nat \<Rightarrow> joint option" where
  "at_index lm i = (if i < length lm then lm ! i else None)"

text \<open>Reading a property of \<open>undefined\<close> throws a \<open>TypeError\<close>.\<close>

datatype error = TypeError

text \<open>The two React refs the component owns: \<open>currentStateRef\<close> and \<open>lastGestureTime\<close>.\<close>

record refs =
  currentStateRef :: TreeState
  lastGestureTime :: int

definition initial_refs :: refs where
  "initial_refs = \<lparr>currentStateRef = TREE_SHAPE, lastGestureTime = 0\<rparr>"

text \<open>The three callbacks of \<open>GestureControllerProps\<close>; a call is recorded as an event.\<close>

datatype callback =
    onStateChange TreeState
  | onCameraMove double double
  | onPhotoGrab bool

section \<open>The pose classification of processGestures (lines 92 to 110)\<close>

text \<open>
  ECMAScript leaves the precision of \<open>Math.hypot\<close> to the engine (the result is
  implementation-approximated), so the functions below take the engine's \<open>Math.hypot\<close> as
  their first argument \<open>Math_hypot\<close>, and everything proved of them holds for every engine.
\<close>

type_synonym hypot_fn = "double \<Rightarrow> double \<Rightarrow> double"

text \<open>
  \<open>Math.hypot(p.x - q.x, p.y - q.y)\<close>: the properties of \<open>p\<close> are read first, then those of
  \<open>q\<close>; either read throws when the object is \<open>undefined\<close>.
\<close>

definition hypot_between :: "hypot_fn \<Rightarrow> joint option \<Rightarrow> joint option \<Rightarrow> error + double" where
  "hypot_between Math_hypot p q =
     (case p of
        None \<Rightarrow> Inl TypeError
      | Some a \<Rightarrow>
          (case q of
             None \<Rightarrow> Inl TypeError
           | Some b \<Rightarrow>
               Inr (Math_hypot (dsub (joint_x a) (joint_x b)) (dsub (joint_y a) (joint_y b)))))"

definition tips :: "nat list" where
  "tips = [8, 12, 16, 20]"

definition mcp :: "nat list" where
  "mcp = [5, 9, 13, 17]"

text \<open>\<open>landmarks[mcp[i]]\<close>: an index outside \<open>mcp\<close> would read \<open>landmarks[undefined]\<close>.\<close>

definition knuckle_of :: "landmarks \<Rightarrow> nat \<Rightarrow> joint option" where
  "knuckle_of lm i = (if i < length mcp then at_index lm (mcp ! i) else None)"

text \<open>The body of the \<open>forEach\<close> callback for one finger, with the running counter.\<close>

definition finger_body ::
  "hypot_fn \<Rightarrow> landmarks \<Rightarrow> joint option \<Rightarrow> nat \<Rightarrow> nat \<Rightarrow> nat \<Rightarrow> error + nat" where
  "finger_body Math_hypot lm wrist tipIdx i fingersOpen =
     (case hypot_between Math_hypot (at_index lm tipIdx) wrist of
        Inl e \<Rightarrow> Inl e
      | Inr distTip \<Rightarrow>
          (case hypot_between Math_hypot (knuckle_of lm i) wrist of
             Inl e \<Rightarrow> Inl e
           | Inr distKnuckle \<Rightarrow>
               Inr (if dless (dmul distKnuckle (lit 1.2)) distTip
                    then fingersOpen + 1 else fingersOpen)))"

text \<open>\<open>tips.forEach((tipIdx, i) => ...)\<close>: the loop over the remaining tips from index \<open>i\<close>.\<close>

fun forEach_tips ::
  "hypot_fn \<Rightarrow> landmarks \<Rightarrow> joint option \<Rightarrow> nat list \<Rightarrow> nat \<Rightarrow> nat \<Rightarrow> error + nat" where
  "forEach_tips Math_hypot lm wrist [] i fingersOpen = Inr fingersOpen"
| "forEach_tips Math_hypot lm wrist (tipIdx # rest) i fingersOpen =
     (case finger_body Math_hypot lm wrist tipIdx i fingersOpen of
        Inl e \<Rightarrow> Inl e
      | Inr n \<Rightarrow> forEach_tips Math_hypot lm wrist rest (i + 1) n)"

text \<open>Lines 92 to 110: the pair \<open>(fingersOpen, isPinching)\<close>, or the exception thrown.\<close>

definition classify :: "hypot_fn \<Rightarrow> landmarks \<Rightarrow> error + (nat \<times> bool)" where
  "classify Math_hypot lm =
     (let wrist = at_index lm 0 in
      case forEach_tips Math_hypot lm wrist tips 0 0 of
        Inl e \<Rightarrow> Inl e
      | Inr fingersOpen \<Rightarrow>
          (let thumbTip = at_index lm 4; indexTip = at_index lm 8 in
           case hypot_between Math_hypot thumbTip indexTip of
             Inl e \<Rightarrow> Inl e
           | Inr pinchDist \<Rightarrow> Inr (fingersOpen, dless pinchDist (lit 0.05))))"

section \<open>The state machine of processGestures (lines 112 to 142)\<close>

text \<open>Lines 114 to 128: the requested state and the \<open>onPhotoGrab\<close> call of the matching rule.\<close>

definition stateMachine :: "TreeState \<Rightarrow> nat \<Rightarrow> bool \<Rightarrow> TreeState \<times> callback list" where
  "stateMachine cur fingersOpen isPinching =
     (if isPinching \<and> cur = SCATTERED then (PHOTO_VIEW, [onPhotoGrab True])
      else if fingersOpen \<ge> 4 then (SCATTERED, [onPhotoGrab False])
      else if fingersOpen = 0 \<and> \<not> isPinching then (TREE_SHAPE, [onPhotoGrab False])
      else (cur, []))"

text \<open>Lines 130 to 134: the commit of a state that differs from the current one.\<close>

definition commit :: "refs \<Rightarrow> TreeState \<Rightarrow> int \<Rightarrow> refs \<times> callback list" where
  "commit r newState now =
     (if newState \<noteq> currentStateRef r
      then (r\<lparr>currentStateRef := newState, lastGestureTime := now\<rparr>, [onStateChange newState])
      else (r, []))"

text \<open>Lines 136 to 142: the camera rotation, read from the wrist while scattered.\<close>

definition cameraControl :: "TreeState \<Rightarrow> joint option \<Rightarrow> error + callback list" where
  "cameraControl cur wrist =
     (if cur = SCATTERED
      then (case wrist of
              None \<Rightarrow> Inl TypeError
            | Some w \<Rightarrow>
                Inr [onCameraMove (dmul (dsub (lit 0.5) (joint_x w)) (lit 4))
                                  (dmul (dsub (lit 0.5) (joint_y w)) (lit 2))])
      else Inr [])"

text \<open>
  \<open>processGestures\<close>, with \<open>Date.now()\<close> passed in as \<open>now\<close>. The result is the refs after
  the call, the callbacks invoked in order, and the exception thrown, if any.
\<close>

definition processGestures ::
  "hypot_fn \<Rightarrow> refs \<Rightarrow> int \<Rightarrow> landmarks \<Rightarrow> refs \<times> callback list \<times> error option" where
  "processGestures Math_hypot r now lm =
     (if now - lastGestureTime r < 500 then (r, [], None)
      else
        (case classify Math_hypot lm of
           Inl e \<Rightarrow> (r, [], Some e)
         | Inr (fingersOpen, isPinching) \<Rightarrow>
             (let (newState, ev1) = stateMachine (currentStateRef r) fingersOpen isPinching;
                  (r', ev2) = commit r newState now
              in case cameraControl (currentStateRef r') (at_index lm 0) of
                   Inl e \<Rightarrow> (r', ev1 @ ev2, Some e)
                 | Inr ev3 \<Rightarrow> (r', ev1 @ ev2 @ ev3, None))))"

text \<open>
  The \<open>hands.onResults\<close> handler (lines 52 to 57): \<open>results.multiHandLandmarks\<close> is absent
  (\<open>None\<close>) or an array of hands, and only the first hand is processed.
\<close>

definition onResults ::
  "hypot_fn \<Rightarrow> refs \<Rightarrow> int \<Rightarrow> landmarks list option \<Rightarrow> refs \<times> callback list \<times> error option" where
  "onResults Math_hypot r now multiHandLandmarks =
     (case multiHandLandmarks of
        None \<Rightarrow> (r, [], None)
      | Some [] \<Rightarrow> (r, [], None)
      | Some (hand # others) \<Rightarrow> processGestures Math_hypot r now hand)"

section \<open>A session of ticks\<close>

text \<open>
  One tick delivers the clock reading and the detector's \<open>multiHandLandmarks\<close>. An exception
  leaves the handler, and the refs keep the values they had when it was thrown.
\<close>

type_synonym tick = "int \<times> landmarks list option"

definition tick_step :: "hypot_fn \<Rightarrow> refs \<Rightarrow> tick \<Rightarrow> refs" where
  "tick_step Math_hypot r t = fst (onResults Math_hypot r (fst t) (snd t))"

definition tick_events :: "hypot_fn \<Rightarrow> refs \<Rightarrow> tick \<Rightarrow> callback list" where
  "tick_events Math_hypot r t = fst (snd (onResults Math_hypot r (fst t) (snd t)))"

text \<open>The refs before the first tick and after each tick of a session.\<close>

fun trace :: "hypot_fn \<Rightarrow> refs \<Rightarrow> tick list \<Rightarrow> refs list" where
  "trace Math_hypot r [] = [r]"
| "trace Math_hypot r (t # ts) = r # trace Math_hypot (tick_step Math_hypot r t) ts"

text \<open>Whether the first hand of a tick classifies as a pinch.\<close>

definition tick_pinching :: "hypot_fn \<Rightarrow> tick \<Rightarrow> bool" where
  "tick_pinching Math_hypot t =
     (case snd t of
        None \<Rightarrow> False
      | Some [] \<Rightarrow> False
      | Some (hand # others) \<Rightarrow>
          (case classify Math_hypot hand of
             Inl e \<Rightarrow> False
           | Inr (fingersOpen, isPinching) \<Rightarrow> isPinching))"

fun is_photoGrab :: "callback \<Rightarrow> bool" where
  "is_photoGrab (onPhotoGrab b) = True"
| "is_photoGrab (onStateChange s) = False"
| "is_photoGrab (onCameraMove dx dy) = False"

fun is_cameraMove :: "callback \<Rightarrow> bool" where
  "is_cameraMove (onCameraMove dx dy) = True"
| "is_cameraMove (onStateChange s) = False"
| "is_cameraMove (onPhotoGrab b) = False"

fun is_stateChange :: "callback \<Rightarrow> bool" where
  "is_stateChange (onStateChange s) = True"
| "is_stateChange (onCameraMove dx dy) = False"
| "is_stateChange (onPhotoGrab b) = False"

section \<open>The specification's vocabulary\<close>

text \<open>
  The indices the specification expects in a frame, and its notion of a malformed frame:
  fewer than 21 joints, or one of the expected indices missing.
\<close>

definition expected_indices :: "nat list" where
  "expected_indices = [0, 4, 5, 8, 9, 12, 13, 16, 17, 20]"

definition malformed :: "landmarks \<Rightarrow> bool" where
  "malformed lm = (length lm < 21 \<or> list_ex (\<lambda>i. at_index lm i = None) expected_indices)"

definition joint_at :: "landmarks \<Rightarrow> nat \<Rightarrow> joint" where
  "joint_at lm i = the (at_index lm i)"

text \<open>The four non-thumb fingers (index, middle, ring, pinky) as (tip, knuckle) pairs.\<close>

definition non_thumb_fingers :: "(nat \<times> nat) list" where
  "non_thumb_fingers = [(8, 5), (12, 9), (16, 13), (20, 17)]"

text \<open>
  The classifier as the specification words it, read over the real numbers: the exact
  Euclidean distance in the plane between the values of two joints, a finger open iff its
  wrist-to-tip distance exceeds 1.2 times its wrist-to-knuckle distance, the count of the
  open fingers, and the pinch test between thumb tip and index fingertip.
\<close>

fun fin_value :: "double \<Rightarrow> real" where
  "fin_value (Fin x) = x"
| "fin_value PInf = 0"
| "fin_value NInf = 0"
| "fin_value NaN = 0"

definition euclid :: "joint \<Rightarrow> joint \<Rightarrow> real" where
  "euclid p q =
     sqrt ((fin_value (joint_x p) - fin_value (joint_x q))\<^sup>2
         + (fin_value (joint_y p) - fin_value (joint_y q))\<^sup>2)"

definition finger_is_open :: "landmarks \<Rightarrow> nat \<times> nat \<Rightarrow> bool" where
  "finger_is_open lm f =
     (euclid (joint_at lm 0) (joint_at lm (fst f))
        > 1.2 * euclid (joint_at lm 0) (joint_at lm (snd f)))"

definition fingersOpen_spec :: "landmarks \<Rightarrow> nat" where
  "fingersOpen_spec lm = length (filter (finger_is_open lm) non_thumb_fingers)"

definition isPinching_spec :: "landmarks \<Rightarrow> bool" where
  "isPinching_spec lm = (euclid (joint_at lm 4) (joint_at lm 8) < 0.05)"

text \<open>
  The same wording read in the arithmetic of the code: the distance of two joints as
  \<open>Math.hypot\<close> of the rounded coordinate differences, the product with the literal 1.2
  rounded, and the comparisons those of binary64 values.
\<close>

definition distance_double :: "hypot_fn \<Rightarrow> joint \<Rightarrow> joint \<Rightarrow> double" where
  "distance_double Math_hypot p q =
     Math_hypot (dsub (joint_x p) (joint_x q)) (dsub (joint_y p) (joint_y q))"

definition finger_is_open_double :: "hypot_fn \<Rightarrow> landmarks \<Rightarrow> nat \<times> nat \<Rightarrow> bool" where
  "finger_is_open_double Math_hypot lm f =
     dless (dmul (distance_double Math_hypot (joint_at lm (snd f)) (joint_at lm 0)) (lit 1.2))
           (distance_double Math_hypot (joint_at lm (fst f)) (joint_at lm 0))"

definition fingersOpen_double :: "hypot_fn \<Rightarrow> landmarks \<Rightarrow> nat" where
  "fingersOpen_double Math_hypot lm =
     length (filter (finger_is_open_double Math_hypot lm) non_thumb_fingers)"

definition isPinching_double :: "hypot_fn \<Rightarrow> landmarks \<Rightarrow> bool" where
  "isPinching_double Math_hypot lm =
     dless (distance_double Math_hypot (joint_at lm 4) (joint_at lm 8)) (lit 0.05)"

section \<open>Sample engine, frames and refs\<close>

text \<open>
  One admissible \<open>Math.hypot\<close>, the correctly rounded one: an infinite argument gives
  \<open>+Infinity\<close>, otherwise a NaN argument gives NaN, otherwise the rounded square root of the
  sum of squares. For an argument pair \<open>(a, 0)\<close> it returns \<open>\<bar>a\<bar>\<close>, as the engines do.
\<close>

definition is_infinite :: "double \<Rightarrow> bool" where
  "is_infinite d = (d = PInf \<or> d = NInf)"

definition hypot_rounded :: hypot_fn where
  "hypot_rounded a b =
     (if is_infinite a \<or> is_infinite b then PInf
      else (case (a, b) of
              (Fin x, Fin y) \<Rightarrow> rnd (sqrt (x * x + y * y))
            | _ \<Rightarrow> NaN))"

text \<open>
  A joint given by two decimal literals, and a 21-joint hand built from a wrist, a thumb,
  one knuckle position, the index fingertip and the position of the other three fingertips.
\<close>

definition pt :: "real \<Rightarrow> real \<Rightarrow> joint" where
  "pt a b = \<lparr>joint_x = lit a, joint_y = lit b\<rparr>"

definition hand21 :: "joint \<Rightarrow> joint \<Rightarrow> joint \<Rightarrow> joint \<Rightarrow> joint \<Rightarrow> landmarks" where
  "hand21 w th k ti t =
     map Some [w, th, th, th, th, k, k, k, ti, k, k, k, t, k, k, k, t, k, k, k, t]"

text \<open>
  Hands with the wrist at \<open>(0.25, 0.5)\<close> and every joint above it on the same vertical line:
  the knuckles at distance 0.25, an open fingertip at distance 0.375, a closed one at
  distance 0.1875.
\<close>

definition frame_open_palm :: landmarks where
  "frame_open_palm =
     hand21 (pt 0.25 0.5) (pt 0.25 0.375) (pt 0.25 0.25) (pt 0.25 0.125) (pt 0.25 0.125)"

definition frame_fist :: landmarks where
  "frame_fist =
     hand21 (pt 0.25 0.5) (pt 0.25 0.375) (pt 0.25 0.25) (pt 0.25 0.3125) (pt 0.25 0.3125)"

definition frame_pinch :: landmarks where
  "frame_pinch =
     hand21 (pt 0.25 0.5) (pt 0.25 0.34375) (pt 0.25 0.25) (pt 0.25 0.3125) (pt 0.25 0.3125)"

definition frame_point :: landmarks where
  "frame_point =
     hand21 (pt 0.25 0.5) (pt 0.25 0.375) (pt 0.25 0.25) (pt 0.25 0.125) (pt 0.25 0.3125)"

text \<open>The pointing hand moved to \<open>x = 0.1\<close>, a coordinate that is not a binary fraction.\<close>

definition frame_tenth :: landmarks where
  "frame_tenth =
     hand21 (pt 0.1 0.5) (pt 0.1 0.375) (pt 0.1 0.25) (pt 0.1 0.125) (pt 0.1 0.3125)"

text \<open>
  A hand at a rounding boundary: the wrist and the thumb at the origin, the knuckles at
  \<open>x = 0.533\<close> and all fingertips at \<open>x = 0.6396000000000001\<close> on the horizontal axis. The
  binary64 product of 0.533 and 1.2 is exactly the binary64 value 0.6396000000000001.
\<close>

definition frame_boundary :: landmarks where
  "frame_boundary =
     hand21 (pt 0 0) (pt 0 0) (pt 0.533 0) (pt 0.6396000000000001 0) (pt 0.6396000000000001 0)"

text \<open>The open palm without its last joint: 20 joints, the pinky tip missing.\<close>

definition frame_truncated :: landmarks where
  "frame_truncated = take 20 frame_open_palm"

definition scattered_at :: "int \<Rightarrow> refs" where
  "scattered_at t = \<lparr>currentStateRef = SCATTERED, lastGestureTime = t\<rparr>"

definition tree_at :: "int \<Rightarrow> refs" where
  "tree_at t = \<lparr>currentStateRef = TREE_SHAPE, lastGestureTime = t\<rparr>"

definition photo_at :: "int \<Rightarrow> refs" where
  "photo_at t = \<lparr>currentStateRef = PHOTO_VIEW, lastGestureTime = t\<rparr>"

definition session_grab :: "tick list" where
  "session_grab = [(1000, Some [frame_open_palm]), (2000, Some [frame_pinch])]"

section \<open>Facts about rounding\<close>

lemma pow2_powr: "pow2 k = 2 powr (of_int k)"
  by (simp add: pow2_def powr_int)

lemma pow2_pos: "0 < pow2 k"
  by (simp add: pow2_powr)

lemma expo_eqI:
  assumes "pow2 e \<le> \<bar>x\<bar>" and "\<bar>x\<bar> < pow2 (e + 1)"
  shows "expo x = e"
proof -
  from assms(1) pow2_pos [of e] have "0 < \<bar>x\<bar>" by linarith
  moreover have "2 powr (of_int e) \<le> \<bar>x\<bar>" using assms(1) by (simp add: pow2_powr)
  moreover have "\<bar>x\<bar> < 2 powr (of_int (e + 1))" using assms(2) by (simp only: pow2_powr)
  ultimately show ?thesis
    unfolding expo_def by (subst floor_log_eq_powr_iff) simp_all
qed

lemma rnd_zero [simp]: "rnd 0 = Fin 0"
  by (simp add: rnd_def)

lemma rnd_normal:
  assumes "pow2 e \<le> \<bar>x\<bar>" and "\<bar>x\<bar> < pow2 (e + 1)" and "- 1022 \<le> e"
  shows "rnd x = round_at e x"
proof -
  from assms(1) pow2_pos [of e] have "x \<noteq> 0" by auto
  with expo_eqI [OF assms(1,2)] assms(3) show ?thesis
    by (simp add: rnd_def)
qed

lemmas rnd_eval = pow2_def round_at_def round_even_def Let_def

text \<open>Binary fractions are binary64 values, and rounding leaves them as they are.\<close>

lemma rnd_binary:
  "rnd 1 = Fin 1" "rnd 2 = Fin 2" "rnd 4 = Fin 4"
  "rnd (1 / 2) = Fin (1 / 2)" "rnd (1 / 4) = Fin (1 / 4)" "rnd (1 / 8) = Fin (1 / 8)"
  "rnd (3 / 8) = Fin (3 / 8)" "rnd (1 / 16) = Fin (1 / 16)" "rnd (3 / 16) = Fin (3 / 16)"
  "rnd (5 / 16) = Fin (5 / 16)" "rnd (1 / 32) = Fin (1 / 32)" "rnd (11 / 32) = Fin (11 / 32)"
  "rnd (- (1 / 4)) = Fin (- (1 / 4))" "rnd (- (3 / 8)) = Fin (- (3 / 8))"
  "rnd (- (3 / 16)) = Fin (- (3 / 16))"
  by (simp add: rnd_normal [of 0] rnd_eval, simp add: rnd_normal [of 1] rnd_eval,
      simp add: rnd_normal [of 2] rnd_eval, simp add: rnd_normal [of "-1"] rnd_eval,
      simp add: rnd_normal [of "-2"] rnd_eval, simp add: rnd_normal [of "-3"] rnd_eval,
      simp add: rnd_normal [of "-2"] rnd_eval, simp add: rnd_normal [of "-4"] rnd_eval,
      simp add: rnd_normal [of "-3"] rnd_eval, simp add: rnd_normal [of "-2"] rnd_eval,
      simp add: rnd_normal [of "-5"] rnd_eval, simp add: rnd_normal [of "-2"] rnd_eval,
      simp add: rnd_normal [of "-2"] rnd_eval, simp add: rnd_normal [of "-2"] rnd_eval,
      simp add: rnd_normal [of "-3"] rnd_eval)

text \<open>The binary64 values of the decimal literals 1.2, 0.05, 0.1, 1.6, 0.533 and 0.6396000000000001.\<close>

lemma rnd_decimal:
  "rnd (6 / 5) = Fin (5404319552844595 / 4503599627370496)"
  "rnd (1 / 20) = Fin (3602879701896397 / 72057594037927936)"
  "rnd (1 / 10) = Fin (3602879701896397 / 36028797018963968)"
  "rnd (8 / 5) = Fin (3602879701896397 / 2251799813685248)"
  "rnd (533 / 1000) = Fin (4800837202776949 / 9007199254740992)"
  "rnd (6396000000000001 / 10000000000000000) = Fin (5761004643332339 / 9007199254740992)"
  by (simp add: rnd_normal [of 0] rnd_eval, simp add: rnd_normal [of "-5"] rnd_eval,
      simp add: rnd_normal [of "-4"] rnd_eval, simp add: rnd_normal [of 0] rnd_eval,
      simp add: rnd_normal [of "-1"] rnd_eval, simp add: rnd_normal [of "-1"] rnd_eval)

text \<open>Results of operations on these values, each rounded once.\<close>

lemma rnd_results:
  "rnd (5404319552844595 / 18014398509481984) = Fin (5404319552844595 / 18014398509481984)"
  "rnd (14411518807585587 / 36028797018963968) = Fin (3602879701896397 / 9007199254740992)"
  "rnd (3602879701896397 / 2251799813685248) = Fin (3602879701896397 / 2251799813685248)"
  "rnd (4800837202776949 / 9007199254740992) = Fin (4800837202776949 / 9007199254740992)"
  "rnd (5761004643332339 / 9007199254740992) = Fin (5761004643332339 / 9007199254740992)"
  "rnd (- (5761004643332339 / 9007199254740992)) = Fin (- (5761004643332339 / 9007199254740992))"
  by (simp add: rnd_normal [of "-2"] rnd_eval, simp add: rnd_normal [of "-2"] rnd_eval,
      simp add: rnd_normal [of 0] rnd_eval, simp add: rnd_normal [of "-1"] rnd_eval,
      simp add: rnd_normal [of "-1"] rnd_eval, simp add: rnd_normal [of "-1"] rnd_eval)

text \<open>
  The rounding at the boundary: the exact product of the binary64 values 0.533 and 1.2 lies
  strictly below the binary64 value 0.6396000000000001 and rounds up to it.
\<close>

lemma boundary_product:
  "(4800837202776949 / 9007199254740992 * (5404319552844595 / 4503599627370496) :: real)
     = 25945258364991217272886245240655 / 40564819207303340847894502572032"
  by simp

lemma rnd_boundary_product:
  "rnd (25945258364991217272886245240655 / 40564819207303340847894502572032)
     = Fin (5761004643332339 / 9007199254740992)"
  by (simp add: rnd_normal [of "-1"] rnd_eval)

lemma boundary_product_below:
  "(25945258364991217272886245240655 / 40564819207303340847894502572032 :: real)
     < 5761004643332339 / 9007199254740992"
  by simp

lemma hypot_rounded_axis:
  "hypot_rounded (Fin a) (Fin 0) = rnd \<bar>a\<bar>" "hypot_rounded (Fin 0) (Fin b) = rnd \<bar>b\<bar>"
  by (simp_all add: hypot_rounded_def is_infinite_def)

section \<open>Facts about the classifier\<close>

lemma malformed_iff:
  "malformed lm \<longleftrightarrow>
     at_index lm 0 = None \<or> at_index lm 4 = None \<or> at_index lm 5 = None \<or>
     at_index lm 8 = None \<or> at_index lm 9 = None \<or> at_index lm 12 = None \<or>
     at_index lm 13 = None \<or> at_index lm 16 = None \<or> at_index lm 17 = None \<or>
     at_index lm 20 = None"
proof -
  have "length lm < 21 \<Longrightarrow> at_index lm 20 = None"
    by (simp add: at_index_def)
  then show ?thesis
    unfolding malformed_def expected_indices_def by auto
qed

lemma hypot_between_Some [simp]:
  "hypot_between h (Some a) (Some b)
     = Inr (h (dsub (joint_x a) (joint_x b)) (dsub (joint_y a) (joint_y b)))"
  by (simp add: hypot_between_def)

lemma hypot_between_None [simp]:
  "hypot_between h None q = Inl TypeError" "hypot_between h p None = Inl TypeError"
  by (simp_all add: hypot_between_def split: option.splits)

lemma finger_is_open_double_eq:
  assumes "at_index lm 0 = Some w" and "at_index lm t = Some a" and "at_index lm k = Some b"
  shows "finger_is_open_double h lm (t, k) =
     dless (dmul (h (dsub (joint_x b) (joint_x w)) (dsub (joint_y b) (joint_y w))) (lit 1.2))
           (h (dsub (joint_x a) (joint_x w)) (dsub (joint_y a) (joint_y w)))"
  by (simp add: finger_is_open_double_def distance_double_def joint_at_def assms)

lemma isPinching_double_eq:
  assumes "at_index lm 4 = Some a" and "at_index lm 8 = Some b"
  shows "isPinching_double h lm
     = dless (h (dsub (joint_x a) (joint_x b)) (dsub (joint_y a) (joint_y b))) (lit 0.05)"
  by (simp add: isPinching_double_def distance_double_def joint_at_def assms)

lemma knuckle_simps [simp]:
  "knuckle_of lm 0 = at_index lm 5"
  "knuckle_of lm (Suc 0) = at_index lm 9"
  "knuckle_of lm (Suc (Suc 0)) = at_index lm 13"
  "knuckle_of lm (Suc (Suc (Suc 0))) = at_index lm 17"
  by (simp_all add: knuckle_of_def mcp_def)

lemma classify_wellformed:
  assumes "\<not> malformed lm"
  shows "classify h lm = Inr (fingersOpen_double h lm, isPinching_double h lm)"
proof -
  from assms obtain w t4 k5 t8 k9 t12 k13 t16 k17 t20 where s:
    "at_index lm 0 = Some w" "at_index lm 4 = Some t4" "at_index lm 5 = Some k5"
    "at_index lm 8 = Some t8" "at_index lm 9 = Some k9" "at_index lm 12 = Some t12"
    "at_index lm 13 = Some k13" "at_index lm 16 = Some t16" "at_index lm 17 = Some k17"
    "at_index lm 20 = Some t20"
    unfolding malformed_iff by auto
  show ?thesis
    by (simp add: classify_def tips_def finger_body_def s fingersOpen_double_def
        non_thumb_fingers_def finger_is_open_double_eq [OF s(1)]
        isPinching_double_eq [OF s(2) s(4)])
qed

lemma fingersOpen_double_le: "fingersOpen_double h lm \<le> 4"
proof -
  have "length (filter (finger_is_open_double h lm) non_thumb_fingers)
      \<le> length non_thumb_fingers"
    by (rule length_filter_le)
  then show ?thesis by (simp add: fingersOpen_double_def non_thumb_fingers_def)
qed

lemma classify_malformed:
  assumes "malformed lm"
  shows "classify h lm = Inl TypeError"
proof (cases "classify h lm")
  case (Inl e)
  then show ?thesis by (cases e) simp
next
  case (Inr v)
  then have "\<not> malformed lm"
    unfolding malformed_iff
    by (auto simp: classify_def Let_def tips_def finger_body_def hypot_between_def
        split: sum.splits option.splits)
  with assms show ?thesis by simp
qed

lemma classify_Inr_wellformed: "classify h lm = Inr v \<Longrightarrow> \<not> malformed lm"
  using classify_malformed [of lm h] by auto

lemma classify_Inr_wrist: "classify h lm = Inr v \<Longrightarrow> \<exists>w. at_index lm 0 = Some w"
  using classify_Inr_wellformed [of h lm v] unfolding malformed_iff by auto

subsection \<open>The exact reading on a horizontal line\<close>

lemma euclid_same_y:
  "joint_y p = joint_y q \<Longrightarrow> euclid p q = \<bar>fin_value (joint_x p) - fin_value (joint_x q)\<bar>"
  by (simp add: euclid_def)

subsection \<open>The sample frames, classified\<close>

lemmas frame_eval =
  classify_def tips_def finger_body_def at_index_def hand21_def pt_def lit_def
  hypot_rounded_axis rnd_binary rnd_decimal rnd_results

lemma classify_open_palm: "classify hypot_rounded frame_open_palm = Inr (4, False)"
  by (simp add: frame_open_palm_def frame_eval)

lemma classify_fist: "classify hypot_rounded frame_fist = Inr (0, False)"
  by (simp add: frame_fist_def frame_eval)

lemma classify_pinch: "classify hypot_rounded frame_pinch = Inr (0, True)"
  by (simp add: frame_pinch_def frame_eval)

lemma classify_point: "classify hypot_rounded frame_point = Inr (1, False)"
  by (simp add: frame_point_def frame_eval)

lemma classify_tenth: "classify hypot_rounded frame_tenth = Inr (1, False)"
  by (simp add: frame_tenth_def frame_eval)

text \<open>
  The boundary hand classifies as a fist under every \<open>Math.hypot\<close> that returns the
  magnitude of its first argument at the three argument pairs \<open>(a, 0)\<close> the frame produces.
\<close>

lemma classify_boundary_engine:
  assumes "h (Fin (5761004643332339 / 9007199254740992)) (Fin 0)
      = Fin (5761004643332339 / 9007199254740992)"
    and "h (Fin (4800837202776949 / 9007199254740992)) (Fin 0)
      = Fin (4800837202776949 / 9007199254740992)"
    and "h (Fin (- (5761004643332339 / 9007199254740992))) (Fin 0)
      = Fin (5761004643332339 / 9007199254740992)"
  shows "classify h frame_boundary = Inr (0, False)"
  by (simp add: frame_boundary_def classify_def tips_def finger_body_def at_index_def
      hand21_def pt_def lit_def rnd_decimal rnd_results rnd_boundary_product assms)

lemma classify_boundary: "classify hypot_rounded frame_boundary = Inr (0, False)"
  by (rule classify_boundary_engine) (simp_all add: hypot_rounded_axis rnd_results)

lemma wellformed_boundary: "\<not> malformed frame_boundary"
  by (rule classify_Inr_wellformed [OF classify_boundary])

lemma fingersOpen_spec_boundary: "fingersOpen_spec frame_boundary = 4"
  by (simp add: fingersOpen_spec_def non_thumb_fingers_def finger_is_open_def joint_at_def
      frame_boundary_def hand21_def at_index_def euclid_same_y pt_def lit_def rnd_decimal)

lemma isPinching_spec_boundary: "\<not> isPinching_spec frame_boundary"
  by (simp add: isPinching_spec_def joint_at_def frame_boundary_def hand21_def at_index_def
      euclid_same_y pt_def lit_def rnd_decimal)

lemma malformed_truncated: "malformed frame_truncated"
  by (simp add: malformed_def frame_truncated_def frame_open_palm_def hand21_def)

lemma wrist_open_palm: "at_index frame_open_palm 0 = Some (pt 0.25 0.5)"
  by (simp add: frame_open_palm_def hand21_def at_index_def)

lemma wrist_pinch: "at_index frame_pinch 0 = Some (pt 0.25 0.5)"
  by (simp add: frame_pinch_def hand21_def at_index_def)

lemma wrist_point: "at_index frame_point 0 = Some (pt 0.25 0.5)"
  by (simp add: frame_point_def hand21_def at_index_def)

lemma wrist_tenth: "at_index frame_tenth 0 = Some (pt 0.1 0.5)"
  by (simp add: frame_tenth_def hand21_def at_index_def)

lemma wellformed_open_palm: "\<not> malformed frame_open_palm"
  by (rule classify_Inr_wellformed [OF classify_open_palm])

lemma wellformed_pinch: "\<not> malformed frame_pinch"
  by (rule classify_Inr_wellformed [OF classify_pinch])

lemma wellformed_point: "\<not> malformed frame_point"
  by (rule classify_Inr_wellformed [OF classify_point])

text \<open>The camera deltas of the two sample wrists, in binary64 arithmetic.\<close>

lemma delta_quarter:
  "dmul (dsub (lit 0.5) (joint_x (pt 0.25 0.5))) (lit 4) = Fin 1"
  "dmul (dsub (lit 0.5) (joint_y (pt 0.25 0.5))) (lit 2) = Fin 0"
  by (simp_all add: pt_def lit_def rnd_binary)

lemma delta_tenth:
  "dmul (dsub (lit 0.5) (joint_x (pt 0.1 0.5))) (lit 4) = lit 1.6"
  "dmul (dsub (lit 0.5) (joint_y (pt 0.1 0.5))) (lit 2) = Fin 0"
  by (simp_all add: pt_def lit_def rnd_binary rnd_decimal rnd_results)

text \<open>Over the reals the delta of the wrist at 0.1 is another number.\<close>

lemma delta_tenth_not_real:
  "lit 1.6 \<noteq> Fin ((0.5 - fin_value (lit 0.1)) * 4)"
  by (simp add: lit_def rnd_decimal)

section \<open>Facts about one call of processGestures\<close>

lemma processGestures_limited:
  "now - lastGestureTime r < 500 \<Longrightarrow> processGestures h r now lm = (r, [], None)"
  by (simp add: processGestures_def)

lemma processGestures_throws:
  "500 \<le> now - lastGestureTime r \<Longrightarrow> malformed lm \<Longrightarrow>
   processGestures h r now lm = (r, [], Some TypeError)"
  by (simp add: processGestures_def classify_malformed)

lemma processGestures_processed:
  assumes "classify h lm = Inr (fingersOpen, isPinching)"
    and "500 \<le> now - lastGestureTime r"
    and "at_index lm 0 = Some w"
  shows "processGestures h r now lm =
     (fst (commit r (fst (stateMachine (currentStateRef r) fingersOpen isPinching)) now),
      snd (stateMachine (currentStateRef r) fingersOpen isPinching)
        @ snd (commit r (fst (stateMachine (currentStateRef r) fingersOpen isPinching)) now)
        @ (if currentStateRef
                (fst (commit r (fst (stateMachine (currentStateRef r) fingersOpen isPinching)) now))
              = SCATTERED
           then [onCameraMove (dmul (dsub (lit 0.5) (joint_x w)) (lit 4))
                              (dmul (dsub (lit 0.5) (joint_y w)) (lit 2))]
           else []),
      None)"
  using assms
  by (simp add: processGestures_def cameraControl_def split_beta Let_def)

section \<open>Sample steps and sessions\<close>

subsection \<open>Sample steps\<close>

lemma initial_is_tree: "initial_refs = tree_at 0"
  by (simp add: initial_refs_def tree_at_def)

lemma step_tree_open_palm:
  "processGestures hypot_rounded (tree_at 0) 1000 frame_open_palm
     = (scattered_at 1000,
        [onPhotoGrab False, onStateChange SCATTERED, onCameraMove (Fin 1) (Fin 0)], None)"
proof -
  have g: "500 \<le> (1000::int) - lastGestureTime (tree_at 0)" by (simp add: tree_at_def)
  show ?thesis
    unfolding processGestures_processed [OF classify_open_palm g wrist_open_palm] delta_quarter
    by (simp add: stateMachine_def commit_def scattered_at_def tree_at_def)
qed

lemma step_scattered_open_palm:
  "processGestures hypot_rounded (scattered_at 0) 1000 frame_open_palm
     = (scattered_at 0, [onPhotoGrab False, onCameraMove (Fin 1) (Fin 0)], None)"
proof -
  have g: "500 \<le> (1000::int) - lastGestureTime (scattered_at 0)" by (simp add: scattered_at_def)
  show ?thesis
    unfolding processGestures_processed [OF classify_open_palm g wrist_open_palm] delta_quarter
    by (simp add: stateMachine_def commit_def scattered_at_def)
qed

lemma step_scattered_pinch:
  "processGestures hypot_rounded (scattered_at 1000) 2000 frame_pinch
     = (photo_at 2000, [onPhotoGrab True, onStateChange PHOTO_VIEW], None)"
proof -
  have g: "500 \<le> (2000::int) - lastGestureTime (scattered_at 1000)"
    by (simp add: scattered_at_def)
  show ?thesis
    unfolding processGestures_processed [OF classify_pinch g wrist_pinch]
    by (simp add: stateMachine_def commit_def scattered_at_def photo_at_def)
qed

lemma step_scattered_pinch_early:
  "processGestures hypot_rounded (scattered_at 0) 1000 frame_pinch
     = (photo_at 1000, [onPhotoGrab True, onStateChange PHOTO_VIEW], None)"
proof -
  have g: "500 \<le> (1000::int) - lastGestureTime (scattered_at 0)"
    by (simp add: scattered_at_def)
  show ?thesis
    unfolding processGestures_processed [OF classify_pinch g wrist_pinch]
    by (simp add: stateMachine_def commit_def scattered_at_def photo_at_def)
qed

lemma step_scattered_point:
  "processGestures hypot_rounded (scattered_at 0) 1000 frame_point
     = (scattered_at 0, [onCameraMove (Fin 1) (Fin 0)], None)"
proof -
  have g: "500 \<le> (1000::int) - lastGestureTime (scattered_at 0)" by (simp add: scattered_at_def)
  show ?thesis
    unfolding processGestures_processed [OF classify_point g wrist_point] delta_quarter
    by (simp add: stateMachine_def commit_def scattered_at_def)
qed

lemma step_scattered_tenth:
  "processGestures hypot_rounded (scattered_at 0) 1000 frame_tenth
     = (scattered_at 0, [onCameraMove (lit 1.6) (Fin 0)], None)"
proof -
  have g: "500 \<le> (1000::int) - lastGestureTime (scattered_at 0)" by (simp add: scattered_at_def)
  show ?thesis
    unfolding processGestures_processed [OF classify_tenth g wrist_tenth] delta_tenth
    by (simp add: stateMachine_def commit_def scattered_at_def)
qed

subsection \<open>Sessions\<close>

lemma trace_first: "trace h r ts ! 0 = r"
  by (cases ts) simp_all

lemma trace_nth_Suc:
  "i < length ts \<Longrightarrow> trace h r ts ! Suc i = tick_step h (trace h r ts ! i) (ts ! i)"
proof (induction ts arbitrary: r i)
  case Nil
  then show ?case by simp
next
  case (Cons t ts)
  show ?case
  proof (cases i)
    case 0
    then show ?thesis by (simp add: trace_first)
  next
    case (Suc j)
    with Cons.prems have "j < length ts" by simp
    from Cons.IH [OF this] Suc show ?thesis by simp
  qed
qed

lemma processGestures_enters_photo:
  assumes "currentStateRef (fst (processGestures h r now lm)) = PHOTO_VIEW"
    and "currentStateRef r \<noteq> PHOTO_VIEW"
  shows "currentStateRef r = SCATTERED \<and> (\<exists>n. classify h lm = Inr (n, True))"
proof (cases "now - lastGestureTime r < 500")
  case True
  with assms show ?thesis by (simp add: processGestures_limited)
next
  case False
  then have g: "500 \<le> now - lastGestureTime r" by simp
  show ?thesis
  proof (cases "classify h lm")
    case (Inl e)
    with assms False show ?thesis by (simp add: processGestures_def)
  next
    case (Inr v)
    obtain n p where v: "v = (n, p)" by (cases v)
    from classify_Inr_wrist [OF Inr] obtain w where w: "at_index lm 0 = Some w" ..
    from Inr v have c: "classify h lm = Inr (n, p)" by simp
    from assms show ?thesis
      unfolding processGestures_processed [OF c g w]
      by (auto simp: c stateMachine_def commit_def split: if_splits)
  qed
qed

lemma processGestures_no_photo_event:
  assumes "currentStateRef r \<noteq> SCATTERED"
  shows "onStateChange PHOTO_VIEW \<notin> set (fst (snd (processGestures h r now lm)))"
proof (cases "now - lastGestureTime r < 500")
  case True
  then show ?thesis by (simp add: processGestures_limited)
next
  case False
  then have g: "500 \<le> now - lastGestureTime r" by simp
  show ?thesis
  proof (cases "classify h lm")
    case (Inl e)
    with False show ?thesis by (simp add: processGestures_def)
  next
    case (Inr v)
    obtain n p where v: "v = (n, p)" by (cases v)
    from classify_Inr_wrist [OF Inr] obtain w where w: "at_index lm 0 = Some w" ..
    from Inr v have c: "classify h lm = Inr (n, p)" by simp
    from assms show ?thesis
      unfolding processGestures_processed [OF c g w]
      by (auto simp: stateMachine_def commit_def split: if_splits)
  qed
qed

lemma tick_step_enters_photo:
  assumes "currentStateRef (tick_step h r t) = PHOTO_VIEW"
    and "currentStateRef r \<noteq> PHOTO_VIEW"
  shows "currentStateRef r = SCATTERED \<and> tick_pinching h t"
proof (cases "snd t")
  case None
  with assms show ?thesis by (simp add: tick_step_def onResults_def)
next
  case (Some hs)
  show ?thesis
  proof (cases hs)
    case Nil
    with Some assms show ?thesis by (simp add: tick_step_def onResults_def)
  next
    case (Cons hd others)
    with Some assms have "currentStateRef (fst (processGestures h r (fst t) hd)) = PHOTO_VIEW"
      by (simp add: tick_step_def onResults_def)
    from processGestures_enters_photo [OF this assms(2)] Some Cons show ?thesis
      by (auto simp: tick_pinching_def)
  qed
qed

lemma tick_no_photo_event:
  assumes "currentStateRef r \<noteq> SCATTERED"
  shows "onStateChange PHOTO_VIEW \<notin> set (tick_events h r t)"
proof (cases "snd t")
  case None
  then show ?thesis by (simp add: tick_events_def onResults_def)
next
  case (Some hs)
  then show ?thesis
    using processGestures_no_photo_event [OF assms]
    by (cases hs) (simp_all add: tick_events_def onResults_def)
qed

lemma trace_session_grab:
  "trace hypot_rounded initial_refs session_grab = [tree_at 0, scattered_at 1000, photo_at 2000]"
  by (simp add: session_grab_def initial_is_tree tick_step_def onResults_def
      step_tree_open_palm step_scattered_pinch)

section \<open>The claims\<close>

subsection \<open>C1: onPhotoGrab and the rate limit\<close>

text \<open>
  Claim C1 says that \<open>onPhotoGrab\<close> is invoked whenever a rule matches, whether or not 500 ms
  have passed since the last committed transition. The rate limit is the first statement of
  \<open>processGestures\<close>: 200 ms after a transition to \<open>SCATTERED\<close>, an open palm (four fingers
  open, rule 2) invokes nothing at all.
\<close>

theorem photoGrab_rate_limit_counterexample:
  "classify hypot_rounded frame_open_palm = Inr (4, False)
   \<and> stateMachine (currentStateRef (scattered_at 1000)) 4 False = (SCATTERED, [onPhotoGrab False])
   \<and> onPhotoGrab False \<notin> set (fst (snd (processGestures hypot_rounded (scattered_at 1000) 1200 frame_open_palm)))"
  by (simp add: classify_open_palm stateMachine_def processGestures_def scattered_at_def)

text \<open>
  Claim C1, amended. For every tick with a frame that classifies: inside the rate limit
  (\<open>now - lastGestureTime < 500\<close>) \<open>onPhotoGrab\<close> is not invoked; once the rate limit has
  passed, \<open>onPhotoGrab(true)\<close> is invoked when rule 1 matches (\<open>isPinching\<close> while
  \<open>currentStateRef\<close> is \<open>SCATTERED\<close>), \<open>onPhotoGrab(false)\<close> is invoked when rule 1 does
  not match and rule 2 or rule 3 does (\<open>fingersOpen \<ge> 4\<close>, or \<open>fingersOpen = 0\<close> and not
  pinching), and otherwise \<open>onPhotoGrab\<close> is not invoked. This does not depend on whether
  the requested state equals the current state: there is no same-state suppression for
  \<open>onPhotoGrab\<close>.
\<close>

theorem photoGrab_after_rate_limit:
  assumes "classify h lm = Inr (fingersOpen, isPinching)"
  shows "filter is_photoGrab (fst (snd (processGestures h r now lm))) =
     (if now - lastGestureTime r < 500 then []
      else if isPinching \<and> currentStateRef r = SCATTERED then [onPhotoGrab True]
      else if fingersOpen \<ge> 4 \<or> (fingersOpen = 0 \<and> \<not> isPinching) then [onPhotoGrab False]
      else [])"
proof (cases "now - lastGestureTime r < 500")
  case True
  then show ?thesis by (simp add: processGestures_limited)
next
  case False
  then have g: "500 \<le> now - lastGestureTime r" by simp
  from classify_Inr_wrist [OF assms] obtain w where w: "at_index lm 0 = Some w" ..
  show ?thesis
    unfolding processGestures_processed [OF assms g w]
    using False by (simp add: stateMachine_def commit_def)
qed

theorem photoGrab_after_rate_limit_witness:
  "classify hypot_rounded frame_open_palm = Inr (4, False)
   \<and> classify hypot_rounded frame_pinch = Inr (0, True)
   \<and> fst (stateMachine (currentStateRef (scattered_at 0)) 4 False) = currentStateRef (scattered_at 0)
   \<and> filter is_photoGrab (fst (snd (processGestures hypot_rounded (scattered_at 0) 1000 frame_open_palm)))
       = [onPhotoGrab False]
   \<and> filter is_photoGrab (fst (snd (processGestures hypot_rounded (scattered_at 0) 1000 frame_pinch)))
       = [onPhotoGrab True]
   \<and> filter is_photoGrab (fst (snd (processGestures hypot_rounded (scattered_at 0) 499 frame_open_palm)))
       = []"
proof -
  have s: "fst (stateMachine (currentStateRef (scattered_at 0)) 4 False)
      = currentStateRef (scattered_at 0)"
    by (simp add: stateMachine_def scattered_at_def)
  have c: "currentStateRef (scattered_at 0) = SCATTERED" "lastGestureTime (scattered_at 0) = 0"
    by (simp_all add: scattered_at_def)
  show ?thesis
    using classify_open_palm classify_pinch s c
      photoGrab_after_rate_limit [OF classify_open_palm, of "scattered_at 0" 1000]
      photoGrab_after_rate_limit [OF classify_pinch, of "scattered_at 0" 1000]
      photoGrab_after_rate_limit [OF classify_open_palm, of "scattered_at 0" 499]
    by simp
qed

subsection \<open>C2: onCameraMove while scattered\<close>

text \<open>
  Claim C2 says that \<open>onCameraMove\<close> is invoked on every tick with a hand present while the
  state is \<open>SCATTERED\<close>, with no condition on elapsed time. Inside the rate limit the call
  returns first: 200 ms after the transition to \<open>SCATTERED\<close>, a well-formed hand invokes
  nothing.
\<close>

theorem cameraMove_rate_limit_counterexample:
  "currentStateRef (scattered_at 1000) = SCATTERED
   \<and> \<not> malformed frame_open_palm
   \<and> onResults hypot_rounded (scattered_at 1000) 1200 (Some [frame_open_palm]) = (scattered_at 1000, [], None)"
  by (simp add: wellformed_open_palm onResults_def processGestures_def scattered_at_def)

text \<open>
  Claim C2, amended. For every tick on which a well-formed hand frame is present,
  \<open>onCameraMove\<close> is invoked iff the tick passes the rate limit
  (\<open>now - lastGestureTime \<ge> 500\<close>) and \<open>currentStateRef\<close> is \<open>SCATTERED\<close> after the tick's
  own transition has been committed. So a tick that starts in \<open>SCATTERED\<close> and commits to
  another state invokes none, and a tick that commits to \<open>SCATTERED\<close> invokes one.
\<close>

theorem cameraMove_iff_scattered_after:
  assumes "\<not> malformed lm"
  shows "(\<exists>dx dy. onCameraMove dx dy \<in> set (fst (snd (onResults h r now (Some (lm # others))))))
     \<longleftrightarrow> (500 \<le> now - lastGestureTime r
          \<and> currentStateRef (fst (onResults h r now (Some (lm # others)))) = SCATTERED)"
proof (cases "now - lastGestureTime r < 500")
  case True
  then show ?thesis by (simp add: onResults_def processGestures_limited)
next
  case False
  then have g: "500 \<le> now - lastGestureTime r" by simp
  from classify_wellformed [OF assms]
  have c: "classify h lm = Inr (fingersOpen_double h lm, isPinching_double h lm)" .
  from classify_Inr_wrist [OF c] obtain w where w: "at_index lm 0 = Some w" ..
  show ?thesis
    unfolding onResults_def list.case option.case processGestures_processed [OF c g w]
    using g by (auto simp: stateMachine_def commit_def split: if_splits)
qed

theorem cameraMove_iff_scattered_after_witness:
  "\<not> malformed frame_point \<and> \<not> malformed frame_pinch
   \<and> onCameraMove (Fin 1) (Fin 0) \<in> set (fst (snd (onResults hypot_rounded (scattered_at 0) 1000 (Some [frame_point]))))
   \<and> currentStateRef (scattered_at 0) = SCATTERED
   \<and> fst (snd (onResults hypot_rounded (scattered_at 0) 1000 (Some [frame_pinch])))
       = [onPhotoGrab True, onStateChange PHOTO_VIEW]"
proof -
  have a: "onCameraMove (Fin 1) (Fin 0) \<in> set (fst (snd (onResults hypot_rounded (scattered_at 0) 1000 (Some [frame_point]))))"
    by (simp add: onResults_def step_scattered_point)
  have b: "fst (snd (onResults hypot_rounded (scattered_at 0) 1000 (Some [frame_pinch])))
       = [onPhotoGrab True, onStateChange PHOTO_VIEW]"
    by (simp add: onResults_def step_scattered_pinch_early)
  have c: "currentStateRef (scattered_at 0) = SCATTERED" by (simp add: scattered_at_def)
  show ?thesis
    using a b c wellformed_point wellformed_pinch
      cameraMove_iff_scattered_after [OF wellformed_point, of hypot_rounded "scattered_at 0" 1000 "[]"]
      cameraMove_iff_scattered_after [OF wellformed_pinch, of hypot_rounded "scattered_at 0" 1000 "[]"]
    by simp
qed

subsection \<open>C3: a malformed frame\<close>

text \<open>
  Claim C3 says that a malformed frame is skipped silently. The handler only tests that a
  hand is present, and \<open>processGestures\<close> reads \<open>x\<close> of a missing joint: once the rate limit
  has passed, the open palm without its pinky tip throws a \<open>TypeError\<close>.
\<close>

theorem malformed_frame_counterexample:
  "malformed frame_truncated
   \<and> length frame_truncated = 20
   \<and> onResults hypot_rounded initial_refs 1000 (Some [frame_truncated]) = (initial_refs, [], Some TypeError)"
  by (simp add: malformed_truncated onResults_def processGestures_throws initial_refs_def)
    (simp add: frame_truncated_def frame_open_palm_def hand21_def)

text \<open>
  Claim C3, amended. For every delivered frame that is malformed (fewer than 21 joints, or
  one of the indices 0, 4, 5, 8, 9, 12, 13, 16, 17, 20 missing), no callback is invoked and
  \<open>currentStateRef\<close> and \<open>lastGestureTime\<close> are unchanged; the tick returns silently only
  inside the rate limit (\<open>now - lastGestureTime < 500\<close>), and otherwise the classification
  throws a \<open>TypeError\<close>.
\<close>

theorem malformed_frame_throws:
  assumes "malformed lm"
  shows "onResults h r now (Some (lm # others))
     = (r, [], if now - lastGestureTime r < 500 then None else Some TypeError)"
  using assms
  by (simp add: onResults_def processGestures_limited processGestures_throws)

theorem malformed_frame_throws_witness:
  "malformed frame_truncated
   \<and> onResults hypot_rounded (tree_at 0) 400 (Some [frame_truncated]) = (tree_at 0, [], None)
   \<and> onResults hypot_rounded (tree_at 0) 500 (Some [frame_truncated]) = (tree_at 0, [], Some TypeError)"
  using malformed_truncated
    malformed_frame_throws [OF malformed_truncated, of hypot_rounded "tree_at 0" 400 "[]"]
    malformed_frame_throws [OF malformed_truncated, of hypot_rounded "tree_at 0" 500 "[]"]
  by (simp add: tree_at_def)

subsection \<open>C4: a clock that went backward\<close>

text \<open>
  Claim C4 says that a tick whose clock reading is earlier than \<open>lastGestureTime\<close> is let
  through. The code subtracts and compares with 500, so a negative difference is below the
  limit and the tick is dropped: here a tree at time 5000 receives an open palm at time
  4000 and stays a tree, with no callback.
\<close>

theorem backward_clock_counterexample:
  "4000 < lastGestureTime (tree_at 5000)
   \<and> classify hypot_rounded frame_open_palm = Inr (4, False)
   \<and> fst (stateMachine (currentStateRef (tree_at 5000)) 4 False) = SCATTERED
   \<and> processGestures hypot_rounded (tree_at 5000) 4000 frame_open_palm = (tree_at 5000, [], None)"
  by (simp add: classify_open_palm processGestures_def stateMachine_def tree_at_def)

text \<open>
  Claim C4, amended. For every tick whose clock reading is earlier than \<open>lastGestureTime\<close>,
  the difference is negative, hence below 500, and the call returns at the rate limit: no
  transition commits, no callback is invoked, and the refs are unchanged.
\<close>

theorem backward_clock_is_dropped:
  assumes "now < lastGestureTime r"
  shows "processGestures h r now lm = (r, [], None)"
  using assms by (simp add: processGestures_def)

theorem backward_clock_is_dropped_witness:
  "(4000::int) < lastGestureTime (tree_at 5000)
   \<and> processGestures hypot_rounded (tree_at 5000) 4000 frame_open_palm = (tree_at 5000, [], None)"
proof -
  have h: "(4000::int) < lastGestureTime (tree_at 5000)"
    by (simp add: tree_at_def)
  show ?thesis
    using h backward_clock_is_dropped [OF h, where h = hypot_rounded] by simp
qed

subsection \<open>C5: the commit gate and the debounce\<close>

text \<open>
  Claim C5. For a frame that classifies, with \<open>target\<close> the state its matching rule requests
  (the current state when no rule matches), the target is committed (\<open>onStateChange(target)\<close>
  invoked, \<open>currentStateRef\<close> set to it and \<open>lastGestureTime\<close> set to \<open>now\<close>) iff
  \<open>target \<noteq> currentStateRef\<close> and \<open>now - lastGestureTime \<ge> 500\<close>; otherwise the refs are
  unchanged and no \<open>onStateChange\<close> is invoked. Consequently, after a tick that commits at
  time \<open>now\<close>, every tick at a time \<open>now'\<close> with \<open>now' - now < 500\<close> is dropped, whatever its
  frame and target: it invokes no callback and leaves the refs as the first tick set them.
\<close>

theorem commit_gate_and_debounce:
  assumes "classify h lm = Inr (fingersOpen, isPinching)"
    and "target = fst (stateMachine (currentStateRef r) fingersOpen isPinching)"
    and "processGestures h r now lm = (r', evs, err)"
  shows "(onStateChange target \<in> set evs
            \<longleftrightarrow> target \<noteq> currentStateRef r \<and> 500 \<le> now - lastGestureTime r)
     \<and> (target \<noteq> currentStateRef r \<and> 500 \<le> now - lastGestureTime r \<longrightarrow>
          r' = r\<lparr>currentStateRef := target, lastGestureTime := now\<rparr>
          \<and> filter is_stateChange evs = [onStateChange target]
          \<and> (\<forall>now' lm'. now' - now < 500 \<longrightarrow> processGestures h r' now' lm' = (r', [], None)))
     \<and> (\<not> (target \<noteq> currentStateRef r \<and> 500 \<le> now - lastGestureTime r) \<longrightarrow>
          r' = r \<and> filter is_stateChange evs = [])"
proof (cases "now - lastGestureTime r < 500")
  case True
  with assms(3) show ?thesis by (simp add: processGestures_limited)
next
  case False
  then have g: "500 \<le> now - lastGestureTime r" by simp
  from classify_Inr_wrist [OF assms(1)] obtain w where w: "at_index lm 0 = Some w" ..
  have ph: "filter is_stateChange (snd (stateMachine (currentStateRef r) fingersOpen isPinching)) = []"
    and ph2: "onStateChange target \<notin> set (snd (stateMachine (currentStateRef r) fingersOpen isPinching))"
    by (simp_all add: stateMachine_def)
  show ?thesis
  proof (cases "target = currentStateRef r")
    case True
    with assms(3) ph ph2 show ?thesis
      unfolding processGestures_processed [OF assms(1) g w] assms(2) [symmetric]
      by (auto simp: commit_def)
  next
    case False
    have c: "commit r target now
        = (r\<lparr>currentStateRef := target, lastGestureTime := now\<rparr>, [onStateChange target])"
      using False by (simp add: commit_def)
    from assms(3) have r': "r' = r\<lparr>currentStateRef := target, lastGestureTime := now\<rparr>"
      and evs: "evs = snd (stateMachine (currentStateRef r) fingersOpen isPinching)
           @ [onStateChange target]
           @ (if target = SCATTERED
              then [onCameraMove (dmul (dsub (lit 0.5) (joint_x w)) (lit 4))
                                 (dmul (dsub (lit 0.5) (joint_y w)) (lit 2))] else [])"
      unfolding processGestures_processed [OF assms(1) g w] assms(2) [symmetric] c
      by simp_all
    have d: "\<forall>now' lm'. now' - now < 500 \<longrightarrow> processGestures h r' now' lm' = (r', [], None)"
      by (simp add: r' processGestures_limited)
    from False g r' d ph show ?thesis
      by (simp add: evs)
  qed
qed

theorem commit_gate_and_debounce_witness:
  "classify hypot_rounded frame_open_palm = Inr (4, False)
   \<and> SCATTERED = fst (stateMachine (currentStateRef (tree_at 0)) 4 False)
   \<and> processGestures hypot_rounded (tree_at 0) 1000 frame_open_palm
       = (scattered_at 1000,
          [onPhotoGrab False, onStateChange SCATTERED, onCameraMove (Fin 1) (Fin 0)], None)
   \<and> classify hypot_rounded frame_fist = Inr (0, False)
   \<and> fst (stateMachine (currentStateRef (scattered_at 1000)) 0 False) = TREE_SHAPE
   \<and> processGestures hypot_rounded (scattered_at 1000) 1200 frame_fist = (scattered_at 1000, [], None)
   \<and> SCATTERED = fst (stateMachine (currentStateRef (scattered_at 0)) 4 False)
   \<and> processGestures hypot_rounded (scattered_at 0) 1000 frame_open_palm
       = (scattered_at 0, [onPhotoGrab False, onCameraMove (Fin 1) (Fin 0)], None)
   \<and> onStateChange SCATTERED
        \<notin> set [onPhotoGrab False, onCameraMove (Fin 1) (Fin 0)]"
proof -
  have h2: "SCATTERED = fst (stateMachine (currentStateRef (tree_at 0)) 4 False)"
    by (simp add: stateMachine_def tree_at_def)
  have h2': "SCATTERED = fst (stateMachine (currentStateRef (scattered_at 0)) 4 False)"
    by (simp add: stateMachine_def scattered_at_def)
  have t: "fst (stateMachine (currentStateRef (scattered_at 1000)) 0 False) = TREE_SHAPE"
    by (simp add: stateMachine_def scattered_at_def)
  have n: "SCATTERED \<noteq> currentStateRef (tree_at 0)
      \<and> 500 \<le> (1000::int) - lastGestureTime (tree_at 0)"
    by (simp add: tree_at_def)
  from commit_gate_and_debounce [OF classify_open_palm h2 step_tree_open_palm] n
  have "\<forall>now' lm'. now' - 1000 < 500
          \<longrightarrow> processGestures hypot_rounded (scattered_at 1000) now' lm' = (scattered_at 1000, [], None)"
    by blast
  then have d: "processGestures hypot_rounded (scattered_at 1000) 1200 frame_fist = (scattered_at 1000, [], None)"
    by simp
  from commit_gate_and_debounce [OF classify_open_palm h2' step_scattered_open_palm]
  have e: "onStateChange SCATTERED \<notin> set [onPhotoGrab False, onCameraMove (Fin 1) (Fin 0)]"
    by (simp add: scattered_at_def)
  show ?thesis
    using classify_open_palm classify_fist h2 h2' t d e step_tree_open_palm
      step_scattered_open_palm
    by simp
qed

subsection \<open>C6: how PHOTO_VIEW is reached\<close>

text \<open>
  Claim C6. In every session that starts from the initial refs (\<open>TREE_SHAPE\<close>), a tick
  after which the state is \<open>PHOTO_VIEW\<close> either started in \<open>PHOTO_VIEW\<close> or started in
  \<open>SCATTERED\<close> with a frame that classifies as a pinch; and a tick that starts in
  \<open>TREE_SHAPE\<close> or \<open>PHOTO_VIEW\<close> never invokes \<open>onStateChange(PHOTO_VIEW)\<close>, whatever its
  frame.
\<close>

theorem photo_view_only_from_scattered_pinch:
  assumes "i < length ts"
  shows "currentStateRef (trace h initial_refs ts ! 0) = TREE_SHAPE
     \<and> (currentStateRef (trace h initial_refs ts ! Suc i) = PHOTO_VIEW \<longrightarrow>
          currentStateRef (trace h initial_refs ts ! i) = PHOTO_VIEW
          \<or> (currentStateRef (trace h initial_refs ts ! i) = SCATTERED \<and> tick_pinching h (ts ! i)))
     \<and> (currentStateRef (trace h initial_refs ts ! i) \<noteq> SCATTERED \<longrightarrow>
          onStateChange PHOTO_VIEW \<notin> set (tick_events h (trace h initial_refs ts ! i) (ts ! i)))"
  using tick_step_enters_photo [of h "trace h initial_refs ts ! i" "ts ! i"]
    tick_no_photo_event [of "trace h initial_refs ts ! i" h "ts ! i"]
  by (auto simp: trace_nth_Suc [OF assms] trace_first initial_refs_def)

theorem photo_view_only_from_scattered_pinch_witness:
  "1 < length session_grab
   \<and> currentStateRef (trace hypot_rounded initial_refs session_grab ! Suc 1) = PHOTO_VIEW
   \<and> currentStateRef (trace hypot_rounded initial_refs session_grab ! 1) = SCATTERED
   \<and> tick_pinching hypot_rounded (session_grab ! 1)
   \<and> 0 < length session_grab
   \<and> currentStateRef (trace hypot_rounded initial_refs session_grab ! 0) = TREE_SHAPE
   \<and> onStateChange PHOTO_VIEW
        \<notin> set (tick_events hypot_rounded (trace hypot_rounded initial_refs session_grab ! 0) (session_grab ! 0))"
proof -
  have h: "1 < length session_grab" by (simp add: session_grab_def)
  have h0: "0 < length session_grab" by (simp add: session_grab_def)
  have a: "currentStateRef (trace hypot_rounded initial_refs session_grab ! Suc 1) = PHOTO_VIEW"
    by (simp add: trace_session_grab photo_at_def)
  have b: "currentStateRef (trace hypot_rounded initial_refs session_grab ! 1) = SCATTERED"
    by (simp add: trace_session_grab scattered_at_def)
  show ?thesis
    using h h0 a b photo_view_only_from_scattered_pinch [OF h, where h = hypot_rounded]
      photo_view_only_from_scattered_pinch [OF h0, where h = hypot_rounded]
    by simp
qed

subsection \<open>C7: the pose classifier\<close>

text \<open>
  Claim C7 says that \<open>fingersOpen\<close> is the number of non-thumb fingers whose Euclidean
  wrist-to-tip distance exceeds 1.2 times the Euclidean wrist-to-knuckle distance. The code
  compares binary64 values, and the product with 1.2 is rounded: for the hand with the
  knuckles at \<open>x = 0.533\<close> and the fingertips at \<open>x = 0.6396000000000001\<close>, all four exact
  distances exceed 1.2 times the knuckle distance, yet the rounded product equals the tip
  distance, the comparison \<open>distTip > distKnuckle * 1.2\<close> is false, and \<open>fingersOpen\<close> is 0.
\<close>

theorem classifier_rounding_counterexample:
  "\<not> malformed frame_boundary
   \<and> fingersOpen_spec frame_boundary = 4
   \<and> \<not> isPinching_spec frame_boundary
   \<and> classify hypot_rounded frame_boundary = Inr (0, False)"
  by (simp add: wellformed_boundary fingersOpen_spec_boundary isPinching_spec_boundary
      classify_boundary)

text \<open>
  Claim C7, amended. The classifier is a function of the frame and of the engine's
  \<open>Math.hypot\<close> alone. On every frame with the expected joints, \<open>fingersOpen\<close> is the number
  of the four non-thumb fingers (index, middle, ring, pinky; the thumb is not among them)
  for which, in binary64 arithmetic, \<open>Math.hypot\<close> of the rounded tip-minus-wrist
  differences exceeds the rounded product of 1.2 and \<open>Math.hypot\<close> of the rounded
  knuckle-minus-wrist differences, so it lies in 0..4; and \<open>isPinching\<close> holds iff
  \<open>Math.hypot\<close> of the rounded differences of thumb tip (index 4) and index fingertip
  (index 8) is strictly less than the binary64 value of 0.05. Within rounding error of a
  threshold the result can differ from the comparison of the exact Euclidean distances.
\<close>

theorem classify_meets_double_spec:
  assumes "\<not> malformed lm"
  shows "classify h lm = Inr (fingersOpen_double h lm, isPinching_double h lm)
     \<and> fingersOpen_double h lm \<le> 4
     \<and> map fst non_thumb_fingers = tips \<and> map snd non_thumb_fingers = mcp
     \<and> 4 \<notin> set (map fst non_thumb_fingers) \<and> 4 \<notin> set (map snd non_thumb_fingers)"
  using assms
  by (simp add: classify_wellformed fingersOpen_double_le non_thumb_fingers_def tips_def mcp_def)

theorem classify_meets_double_spec_witness:
  "\<not> malformed frame_point
   \<and> fingersOpen_double hypot_rounded frame_point = 1
   \<and> \<not> isPinching_double hypot_rounded frame_point
   \<and> \<not> malformed frame_pinch
   \<and> fingersOpen_double hypot_rounded frame_pinch = 0
   \<and> isPinching_double hypot_rounded frame_pinch
   \<and> \<not> malformed frame_boundary
   \<and> fingersOpen_double hypot_rounded frame_boundary = 0"
  using wellformed_point wellformed_pinch wellformed_boundary
    classify_meets_double_spec [OF wellformed_point, of hypot_rounded]
    classify_meets_double_spec [OF wellformed_pinch, of hypot_rounded]
    classify_meets_double_spec [OF wellformed_boundary, of hypot_rounded]
  by (simp add: classify_point classify_pinch classify_boundary)

subsection \<open>C8: the camera mapper\<close>

text \<open>
  Claim C8 says that the camera mapper emits the delta whenever \<open>currentState\<close> is
  \<open>SCATTERED\<close>, so that a wrist at \<open>(0.25, 0.5)\<close> while \<open>SCATTERED\<close> yields
  \<open>onCameraMove(1, 0)\<close>. The camera block is the last statement of \<open>processGestures\<close>: 200 ms
  after the transition to \<open>SCATTERED\<close>, a well-formed hand with its wrist at \<open>(0.25, 0.5)\<close>
  invokes nothing.
\<close>

theorem camera_mapper_counterexample:
  "currentStateRef (scattered_at 1000) = SCATTERED
   \<and> \<not> malformed frame_point
   \<and> at_index frame_point 0 = Some (pt 0.25 0.5)
   \<and> processGestures hypot_rounded (scattered_at 1000) 1200 frame_point
       = (scattered_at 1000, [], None)"
  by (simp add: wellformed_point wrist_point processGestures_def scattered_at_def)

text \<open>
  Claim C8, amended. For every tick with a frame that classifies and wrist \<open>w\<close>: inside the
  rate limit (\<open>now - lastGestureTime < 500\<close>) \<open>onCameraMove\<close> is not invoked; once the rate
  limit has passed, the camera block reads \<open>currentStateRef\<close> after the tick's own commit,
  invokes nothing when that state is not \<open>SCATTERED\<close>, and when it is \<open>SCATTERED\<close> invokes
  \<open>onCameraMove\<close> once with \<open>((0.5 - w.x) * 4, (0.5 - w.y) * 2)\<close> evaluated in binary64
  arithmetic (the differences and the products rounded). The delta depends on the wrist
  alone; for the wrist \<open>(0.25, 0.5)\<close> it is \<open>(1, 0)\<close>.
\<close>

theorem camera_delta_after_rate_limit:
  assumes "classify h lm = Inr (fingersOpen, isPinching)"
    and "at_index lm 0 = Some w"
  shows "filter is_cameraMove (fst (snd (processGestures h r now lm))) =
       (if now - lastGestureTime r < 500 then []
        else if currentStateRef (fst (processGestures h r now lm)) = SCATTERED
        then [onCameraMove (dmul (dsub (lit 0.5) (joint_x w)) (lit 4))
                           (dmul (dsub (lit 0.5) (joint_y w)) (lit 2))]
        else [])
     \<and> dmul (dsub (lit 0.5) (joint_x (pt 0.25 0.5))) (lit 4) = Fin 1
     \<and> dmul (dsub (lit 0.5) (joint_y (pt 0.25 0.5))) (lit 2) = Fin 0"
proof -
  have main: "filter is_cameraMove (fst (snd (processGestures h r now lm))) =
       (if now - lastGestureTime r < 500 then []
        else if currentStateRef (fst (processGestures h r now lm)) = SCATTERED
        then [onCameraMove (dmul (dsub (lit 0.5) (joint_x w)) (lit 4))
                           (dmul (dsub (lit 0.5) (joint_y w)) (lit 2))]
        else [])"
  proof (cases "now - lastGestureTime r < 500")
    case True
    then show ?thesis by (simp add: processGestures_limited)
  next
    case False
    then have g: "500 \<le> now - lastGestureTime r" by simp
    show ?thesis
      unfolding processGestures_processed [OF assms(1) g assms(2)]
      using False by (simp add: stateMachine_def commit_def)
  qed
  from main delta_quarter show ?thesis by blast
qed

theorem camera_delta_after_rate_limit_witness:
  "classify hypot_rounded frame_point = Inr (1, False)
   \<and> at_index frame_point 0 = Some (pt 0.25 0.5)
   \<and> filter is_cameraMove (fst (snd (processGestures hypot_rounded (scattered_at 0) 1000 frame_point)))
       = [onCameraMove (Fin 1) (Fin 0)]
   \<and> filter is_cameraMove (fst (snd (processGestures hypot_rounded (scattered_at 0) 499 frame_point)))
       = []
   \<and> classify hypot_rounded frame_pinch = Inr (0, True)
   \<and> at_index frame_pinch 0 = Some (pt 0.25 0.5)
   \<and> filter is_cameraMove (fst (snd (processGestures hypot_rounded (scattered_at 0) 1000 frame_pinch)))
       = []
   \<and> classify hypot_rounded frame_tenth = Inr (1, False)
   \<and> at_index frame_tenth 0 = Some (pt 0.1 0.5)
   \<and> filter is_cameraMove (fst (snd (processGestures hypot_rounded (scattered_at 0) 1000 frame_tenth)))
       = [onCameraMove (lit 1.6) (Fin 0)]"
proof -
  have a: "filter is_cameraMove
        (fst (snd (processGestures hypot_rounded (scattered_at 0) 1000 frame_point)))
      = [onCameraMove (Fin 1) (Fin 0)]"
    unfolding step_scattered_point by simp
  have b: "filter is_cameraMove
        (fst (snd (processGestures hypot_rounded (scattered_at 0) 1000 frame_pinch))) = []"
    unfolding step_scattered_pinch_early by simp
  have c: "filter is_cameraMove
        (fst (snd (processGestures hypot_rounded (scattered_at 0) 1000 frame_tenth)))
      = [onCameraMove (lit 1.6) (Fin 0)]"
    unfolding step_scattered_tenth by simp
  have l: "lastGestureTime (scattered_at 0) = 0" by (simp add: scattered_at_def)
  show ?thesis
    using a b c l classify_point wrist_point classify_pinch wrist_pinch classify_tenth wrist_tenth
      camera_delta_after_rate_limit [OF classify_point wrist_point, of "scattered_at 0" 1000]
      camera_delta_after_rate_limit [OF classify_point wrist_point, of "scattered_at 0" 499]
      camera_delta_after_rate_limit [OF classify_pinch wrist_pinch, of "scattered_at 0" 1000]
      camera_delta_after_rate_limit [OF classify_tenth wrist_tenth, of "scattered_at 0" 1000]
    by simp
qed

subsection \<open>C9: an ambiguous pose changes nothing\<close>

text \<open>
  Claim C9. For every frame that classifies to \<open>fingersOpen\<close> in \<open>{1, 2, 3}\<close> with
  \<open>isPinching\<close> false, no transition rule fires: \<open>currentStateRef\<close> and \<open>lastGestureTime\<close>
  are unchanged, no \<open>onStateChange\<close> (and no \<open>onPhotoGrab\<close>) is invoked on that tick, and
  nothing is thrown.
\<close>

theorem ambiguous_pose_changes_nothing:
  assumes "classify h lm = Inr (fingersOpen, False)"
    and "fingersOpen \<in> {1, 2, 3}"
  shows "fst (processGestures h r now lm) = r
     \<and> filter is_stateChange (fst (snd (processGestures h r now lm))) = []
     \<and> filter is_photoGrab (fst (snd (processGestures h r now lm))) = []
     \<and> snd (snd (processGestures h r now lm)) = None"
proof (cases "now - lastGestureTime r < 500")
  case True
  then show ?thesis by (simp add: processGestures_limited)
next
  case False
  from classify_Inr_wrist [OF assms(1)] obtain w where w: "at_index lm 0 = Some w" ..
  from False have g: "500 \<le> now - lastGestureTime r" by simp
  from assms(2) have st: "stateMachine (currentStateRef r) fingersOpen False = (currentStateRef r, [])"
    by (auto simp: stateMachine_def)
  show ?thesis
    by (simp add: processGestures_processed [OF assms(1) g w] st commit_def)
qed

theorem ambiguous_pose_changes_nothing_witness:
  "classify hypot_rounded frame_point = Inr (1, False)
   \<and> (1::nat) \<in> {1, 2, 3}
   \<and> processGestures hypot_rounded (scattered_at 0) 1000 frame_point
       = (scattered_at 0, [onCameraMove (Fin 1) (Fin 0)], None)"
proof -
  have h: "(1::nat) \<in> {1, 2, 3}" by simp
  show ?thesis
    using classify_point h step_scattered_point
      ambiguous_pose_changes_nothing [OF classify_point h, of "scattered_at 0" 1000]
    by simp
qed

subsection \<open>C10: the rate limit returns before anything else\<close>

text \<open>
  Claim C10. A call of \<open>processGestures\<close> whose clock reading satisfies
  \<open>0 \<le> now - lastGestureTime < 500\<close> returns before any classification: no callback is
  invoked (neither \<open>onStateChange\<close> nor \<open>onPhotoGrab\<close> nor \<open>onCameraMove\<close>), nothing is
  thrown, and \<open>currentStateRef\<close> and \<open>lastGestureTime\<close> are unchanged. This holds for every
  frame, malformed ones included.
\<close>

theorem rate_limit_returns_early:
  assumes "0 \<le> now - lastGestureTime r" and "now - lastGestureTime r < 500"
  shows "processGestures h r now lm = (r, [], None)"
  using assms(2) by (simp add: processGestures_def)

theorem rate_limit_returns_early_witness:
  "0 \<le> (1200::int) - lastGestureTime (scattered_at 1000)
   \<and> (1200::int) - lastGestureTime (scattered_at 1000) < 500
   \<and> processGestures hypot_rounded (scattered_at 1000) 1200 frame_open_palm = (scattered_at 1000, [], None)"
proof -
  have h1: "0 \<le> (1200::int) - lastGestureTime (scattered_at 1000)"
    by (simp add: scattered_at_def)
  have h2: "(1200::int) - lastGestureTime (scattered_at 1000) < 500"
    by (simp add: scattered_at_def)
  show ?thesis
    using h1 h2 rate_limit_returns_early [OF h1 h2, where h = hypot_rounded] by simp
qed
end
